theory Spec2Isabelle
  imports Complex_Main
begin

section \<open>Numbers\<close>

text \<open>
  The program computes on Go \<^verbatim>\<open>float64\<close> values. They are modelled as real numbers:
  every operation on finite operands is exact, so rounding to 53 bits and overflow are
  outside the model. What the model keeps of IEEE arithmetic is the one thing the source
  has to reckon with, division by zero: Go never panics on a \<^verbatim>\<open>float64\<close> division, the
  quotient of a finite dividend by zero is an infinity or a NaN. Such a quotient is an
  \<open>fval\<close>; \<open>fdiv\<close> is the division of two finite operands (the divisor zero is taken as
  \<^verbatim>\<open>+0\<close>) and \<open>flt\<close> is the comparison \<^verbatim>\<open><\<close> of a quotient with a finite number
  (false for NaN).
\<close>

datatype fval = Fin real | PInf | NInf | NaN

definition fdiv :: "real \<Rightarrow> real \<Rightarrow> fval" where
  "fdiv x y =
     (if y \<noteq> 0 then Fin (x / y)
      else if 0 < x then PInf
      else if x < 0 then NInf
      else NaN)"

fun flt :: "fval \<Rightarrow> real \<Rightarrow> bool" where
  "flt (Fin x) y = (x < y)"
| "flt PInf y = False"
| "flt NInf y = True"
| "flt NaN y = False"

fun fmul :: "fval \<Rightarrow> real \<Rightarrow> fval" where
  "fmul (Fin x) c = Fin (x * c)"
| "fmul PInf c = (if 0 < c then PInf else if c < 0 then NInf else NaN)"
| "fmul NInf c = (if 0 < c then NInf else if c < 0 then PInf else NaN)"
| "fmul NaN c = NaN"

fun is_finite :: "fval \<Rightarrow> bool" where
  "is_finite (Fin x) = True"
| "is_finite PInf = False"
| "is_finite NInf = False"
| "is_finite NaN = False"

fun fin_val :: "fval \<Rightarrow> real" where
  "fin_val (Fin x) = x"
| "fin_val PInf = 0"
| "fin_val NInf = 0"
| "fin_val NaN = 0"

section \<open>The rightsizing analyzer (\<^verbatim>\<open>internal/analyzer/rightsizing.go\<close>)\<close>

text \<open>
  \<^verbatim>\<open>RightsizingAnalyzer\<close> without its database handle and its logger, and
  \<^verbatim>\<open>Recommendation\<close> with every field. A duration is a number of nanoseconds, a
  time a number of nanoseconds too (the zero time is 0).
\<close>

record RightsizingAnalyzer =
  wasteThreshold :: real
  analysisWindow :: int
  minDataPoints :: int
  confidenceLevel :: real

record Recommendation =
  Namespace :: string
  PodName :: string
  ContainerName :: string
  ResourceType :: string
  CurrentRequest :: real
  CurrentLimit :: real
  RecommendedRequest :: real
  RecommendedLimit :: real
  P50Usage :: real
  P95Usage :: real
  P99Usage :: real
  MaxUsage :: real
  PotentialSavings :: real
  Confidence :: real
  Reasoning :: string
  RiskLevel :: string
  LastUpdated :: int

definition NewRightsizingAnalyzer :: RightsizingAnalyzer where
  "NewRightsizingAnalyzer =
     \<lparr> wasteThreshold = 0.30,
       analysisWindow = 7 * 24 * 3600000000000,
       minDataPoints = 100,
       confidenceLevel = 0.7 \<rparr>"

text \<open>\<^verbatim>\<open>calculateConfidence(dataPoints int, cv float64)\<close>, statement by statement.\<close>

definition calculateConfidence :: "int \<Rightarrow> real \<Rightarrow> real" where
  "calculateConfidence dataPoints cv =
     (let baseConfidence = min (real_of_int dataPoints / 1000.0) 1.0;
          variabilityFactor = 1.0 - (cv * 0.5);
          variabilityFactor = (if variabilityFactor < 0.3 then 0.3 else variabilityFactor);
          confidence = baseConfidence * variabilityFactor;
          confidence = (if confidence < 0.1 then 0.1 else confidence);
          confidence = (if confidence > 0.95 then 0.95 else confidence)
      in confidence)"

text \<open>
  The two local computations that divide by an input. \<open>cvOf\<close> is
  \<^verbatim>\<open>cv := stddev / avg; if avg == 0 { cv = 0 }\<close>, and \<open>wasteOf\<close> is
  \<^verbatim>\<open>waste := (currentRequest - p95) / currentRequest\<close>, which nothing guards.
\<close>

definition cvOf :: "real \<Rightarrow> real \<Rightarrow> fval" where
  "cvOf stddev avg =
     (let cv = fdiv stddev avg;
          cv = (if avg = 0 then Fin 0 else cv)
      in cv)"

definition wasteOf :: "real \<Rightarrow> real \<Rightarrow> fval" where
  "wasteOf currentRequest p95 = fdiv (currentRequest - p95) currentRequest"

text \<open>
  The chain \<^verbatim>\<open>if cv < 0.3 {...} else if cv < 0.6 {...} else {...}\<close> of
  \<^verbatim>\<open>calculateCPURecommendation\<close>, which sets \<^verbatim>\<open>recommendedLimit\<close>,
  \<^verbatim>\<open>reasoning\<close> and \<^verbatim>\<open>riskLevel\<close>. The source's parameter \<^verbatim>\<open>max\<close> is
  \<open>mx\<close> here.
\<close>

definition cpuTier :: "real \<Rightarrow> real \<Rightarrow> real \<Rightarrow> real \<times> string \<times> string" where
  "cpuTier cv p99 mx =
     (if cv < 0.3 then
        (p99 * 1.2, ''Low variability workload, using P99 + 20% for limit'', ''LOW'')
      else if cv < 0.6 then
        (max (p99 * 1.5) mx,
         ''Medium variability workload, using max(P99*1.5, max) for limit'', ''MEDIUM'')
      else
        (mx * 1.3, ''High variability workload, using max + 30% for limit'', ''HIGH''))"

text \<open>\<^verbatim>\<open>calculateCPURecommendation\<close>. The result \<^verbatim>\<open>nil\<close> is \<open>None\<close>.\<close>

definition calculateCPURecommendation ::
  "RightsizingAnalyzer \<Rightarrow> real \<Rightarrow> real \<Rightarrow> real \<Rightarrow> real \<Rightarrow> real \<Rightarrow> real \<Rightarrow> real \<Rightarrow> real \<Rightarrow> int
     \<Rightarrow> Recommendation option" where
  "calculateCPURecommendation ra currentRequest currentLimit p50 p95 p99 mx avg stddev dataPoints =
     (let cv = fin_val (cvOf stddev avg);
          confidence = calculateConfidence dataPoints cv;
          safetyMargin = 1.15;
          recommendedRequest = p95 * safetyMargin;
          (recommendedLimit, reasoning, riskLevel) = cpuTier cv p99 mx;
          waste = wasteOf currentRequest p95
      in if flt waste (wasteThreshold ra) \<and> confidence > 0.7 then None
         else
           (let costPerMillicore = 0.00001;
                hourlyCurrentCost = currentRequest * costPerMillicore;
                hourlyRecommendedCost = recommendedRequest * costPerMillicore;
                monthlySavings = (hourlyCurrentCost - hourlyRecommendedCost) * 24 * 30;
                (recommendedRequest, reasoning) =
                  (if recommendedRequest < 10
                   then (10, reasoning @ '' (adjusted to minimum 10m CPU)'')
                   else (recommendedRequest, reasoning));
                (recommendedLimit, reasoning) =
                  (if recommendedLimit < recommendedRequest * 1.5
                   then (recommendedRequest * 1.5, reasoning @ '' (adjusted limit to 1.5x request)'')
                   else (recommendedLimit, reasoning))
            in Some \<lparr> Namespace = '''', PodName = '''', ContainerName = '''',
                      ResourceType = ''CPU'',
                      CurrentRequest = currentRequest,
                      CurrentLimit = currentLimit,
                      RecommendedRequest = recommendedRequest,
                      RecommendedLimit = recommendedLimit,
                      P50Usage = p50,
                      P95Usage = p95,
                      P99Usage = p99,
                      MaxUsage = mx,
                      PotentialSavings = monthlySavings,
                      Confidence = confidence,
                      Reasoning = reasoning,
                      RiskLevel = riskLevel,
                      LastUpdated = 0 \<rparr>))"

text \<open>\<^verbatim>\<open>calculateMemoryRecommendation\<close>; \<^verbatim>\<open>math.Ceil\<close> is the ceiling.\<close>

definition calculateMemoryRecommendation ::
  "RightsizingAnalyzer \<Rightarrow> real \<Rightarrow> real \<Rightarrow> real \<Rightarrow> real \<Rightarrow> real \<Rightarrow> real \<Rightarrow> real \<Rightarrow> real \<Rightarrow> int
     \<Rightarrow> Recommendation option" where
  "calculateMemoryRecommendation ra currentRequest currentLimit p50 p95 p99 mx avg stddev dataPoints =
     (let cv = fin_val (cvOf stddev avg);
          confidence = calculateConfidence dataPoints cv;
          oomBuffer = 1.2;
          recommendedRequest = p95 * 1.1;
          recommendedLimit = mx * oomBuffer;
          recommendedRequest = of_int \<lceil>recommendedRequest / 1048576\<rceil> * 1048576;
          recommendedLimit = of_int \<lceil>recommendedLimit / 1048576\<rceil> * 1048576;
          waste = wasteOf currentRequest p95
      in if flt waste (wasteThreshold ra) \<and> confidence > 0.7 then None
         else
           (let costPerByte = 0.00000001;
                hourlyCurrentCost = currentRequest * costPerByte;
                hourlyRecommendedCost = recommendedRequest * costPerByte;
                monthlySavings = (hourlyCurrentCost - hourlyRecommendedCost) * 24 * 30;
                riskLevel =
                  (if cv < 0.3 then ''LOW'' else if cv < 0.6 then ''MEDIUM'' else ''HIGH'');
                recommendedRequest =
                  (if recommendedRequest < 64 * 1024 * 1024 then 64 * 1024 * 1024
                   else recommendedRequest);
                recommendedLimit =
                  (if recommendedLimit < recommendedRequest * 1.5 then recommendedRequest * 1.5
                   else recommendedLimit)
            in Some \<lparr> Namespace = '''', PodName = '''', ContainerName = '''',
                      ResourceType = ''Memory'',
                      CurrentRequest = currentRequest,
                      CurrentLimit = currentLimit,
                      RecommendedRequest = recommendedRequest,
                      RecommendedLimit = recommendedLimit,
                      P50Usage = p50,
                      P95Usage = p95,
                      P99Usage = p99,
                      MaxUsage = mx,
                      PotentialSavings = monthlySavings,
                      Confidence = confidence,
                      Reasoning = ''Memory recommendation with OOM prevention buffer'',
                      RiskLevel = riskLevel,
                      LastUpdated = 0 \<rparr>))"

text \<open>The spec's formula for the confidence, in the spec's words.\<close>

definition clamp_spec :: "real \<Rightarrow> real \<Rightarrow> real \<Rightarrow> real" where
  "clamp_spec x lo hi = max lo (min hi x)"

definition confidence_spec :: "int \<Rightarrow> real \<Rightarrow> real" where
  "confidence_spec n cv =
     clamp_spec (min (real_of_int n / 1000) 1 * max (1 - cv * 0.5) 0.3) 0.1 0.95"

text \<open>
  A number of bytes is a whole number of MiB when it is 1048576 times an integer; the
  test divides, takes the floor and multiplies back.
\<close>

definition mib_multiple :: "real \<Rightarrow> bool" where
  "mib_multiple x = (x = of_int \<lfloor>x / 1048576\<rfloor> * 1048576)"

section \<open>The cost simulation (\<^verbatim>\<open>internal/api/handlers.go\<close>)\<close>

text \<open>
  The handler reads the database through two queries. Each is a function here: the sum
  of the namespace's costs of the last hour, and the latest row of
  \<^verbatim>\<open>resource_requests\<close> for a container; \<open>None\<close> is a query or scan that fails.
\<close>

record Handler =
  db_namespace_costs :: "string \<Rightarrow> real option"
  db_resource_requests :: "string \<Rightarrow> string \<Rightarrow> string \<Rightarrow> (real \<times> real \<times> real \<times> real) option"

text \<open>The decoded request body of \<^verbatim>\<open>SimulateCosts\<close>, fields named by their JSON tags.\<close>

record Change =
  pod_name :: string
  container_name :: string
  cpu_request :: real
  cpu_limit :: real
  memory_request :: real
  memory_limit :: real
  replicas :: int

record SimulateRequest =
  namespace :: string
  changes :: "Change list"
  period :: string

text \<open>
  The response map, one field for each key; \<^verbatim>\<open>breakdown\<close> is a map itself. The
  quotient behind \<^verbatim>\<open>savings_percent\<close> divides by an input, so that field is an
  \<open>fval\<close>.
\<close>

record SimulateResponse =
  current_cost :: real
  projected_cost :: real
  cost_difference :: real
  savings :: real
  savings_percent :: fval
  breakdown :: "string \<rightharpoonup> real"

definition getCurrentCosts :: "Handler \<Rightarrow> string \<Rightarrow> real" where
  "getCurrentCosts h ns =
     (case db_namespace_costs h ns of
        None \<Rightarrow> 0
      | Some totalCost \<Rightarrow> totalCost)"

definition getCurrentAllocation :: "Handler \<Rightarrow> string \<Rightarrow> string \<Rightarrow> string \<Rightarrow> (string \<rightharpoonup> real)" where
  "getCurrentAllocation h ns podName containerName =
     (case db_resource_requests h ns podName containerName of
        None \<Rightarrow>
          [''cpu_request'' \<mapsto> 0, ''cpu_limit'' \<mapsto> 0,
           ''memory_request'' \<mapsto> 0, ''memory_limit'' \<mapsto> 0]
      | Some (cpuRequest, cpuLimit, memoryRequest, memoryLimit) \<Rightarrow>
          [''cpu_request'' \<mapsto> cpuRequest, ''cpu_limit'' \<mapsto> cpuLimit,
           ''memory_request'' \<mapsto> memoryRequest, ''memory_limit'' \<mapsto> memoryLimit])"

text \<open>Reading a Go map: a key that is missing reads as zero.\<close>

definition index :: "(string \<rightharpoonup> real) \<Rightarrow> string \<Rightarrow> real" where
  "index m k = (case m k of None \<Rightarrow> 0 | Some v \<Rightarrow> v)"

text \<open>
  The loop \<^verbatim>\<open>for _, change := range request.Changes\<close> of \<^verbatim>\<open>SimulateCosts\<close>, with
  \<^verbatim>\<open>costDelta\<close> as its accumulator.
\<close>

fun sumCostDelta :: "Handler \<Rightarrow> string \<Rightarrow> Change list \<Rightarrow> real \<Rightarrow> real" where
  "sumCostDelta h ns [] costDelta = costDelta"
| "sumCostDelta h ns (change # rest) costDelta =
     (let current = getCurrentAllocation h ns (pod_name change) (container_name change);
          cpuDelta = (cpu_request change - index current ''cpu_request'') * 0.00001
                       * real_of_int (replicas change);
          memoryDelta = (memory_request change - index current ''memory_request'') * 0.00000001
                       * real_of_int (replicas change)
      in sumCostDelta h ns rest (costDelta + (cpuDelta + memoryDelta)))"

text \<open>The \<^verbatim>\<open>switch request.Period\<close>.\<close>

definition periodMultiplier :: "string \<Rightarrow> real" where
  "periodMultiplier p =
     (if p = ''daily'' then 24
      else if p = ''monthly'' then 24 * 30
      else if p = ''yearly'' then 24 * 365
      else 24 * 30)"

text \<open>
  \<^verbatim>\<open>json.NewEncoder(w).Encode(response)\<close>. The encoder marshals the whole value before
  it writes anything, and it refuses a number that is a NaN or an infinity: the call
  returns an error, which the handler drops, and the body stays empty. \<open>None\<close> is that
  empty body; \<open>Some\<close> is the body that holds the response. Of the numbers of the
  response only \<^verbatim>\<open>savings_percent\<close> can be other than finite here.
\<close>

definition jsonEncode :: "SimulateResponse \<Rightarrow> SimulateResponse option" where
  "jsonEncode response =
     (if is_finite (savings_percent response) then Some response else None)"

text \<open>
  \<^verbatim>\<open>SimulateCosts\<close> from the decoded request to the body it writes (a body of the
  request that does not decode is answered with status 400 before any of this runs).
\<close>

definition SimulateCosts :: "Handler \<Rightarrow> SimulateRequest \<Rightarrow> SimulateResponse option" where
  "SimulateCosts h request =
     (let currentCosts = getCurrentCosts h (namespace request);
          costDelta = sumCostDelta h (namespace request) (changes request) 0.0;
          multiplier = periodMultiplier (period request);
          projectedCost = (currentCosts + costDelta) * multiplier;
          savings = currentCosts * multiplier - projectedCost;
          response =
            \<lparr> current_cost = currentCosts * multiplier,
              projected_cost = projectedCost,
              cost_difference = costDelta * multiplier,
              savings = savings,
              savings_percent = fmul (fdiv savings (currentCosts * multiplier)) 100,
              breakdown =
                [''compute'' \<mapsto> projectedCost * 0.6,
                 ''storage'' \<mapsto> projectedCost * 0.2,
                 ''network'' \<mapsto> projectedCost * 0.15,
                 ''other'' \<mapsto> projectedCost * 0.05] \<rparr>
      in jsonEncode response)"

text \<open>
  The spec's cost difference of one change: the proposed request less the current one,
  times the unit cost of the resource kind, times the replicas, for CPU and for memory.
\<close>

definition delta_spec :: "Handler \<Rightarrow> string \<Rightarrow> Change \<Rightarrow> real" where
  "delta_spec h ns c =
     (cpu_request c - index (getCurrentAllocation h ns (pod_name c) (container_name c)) ''cpu_request'')
        * 0.00001 * real_of_int (replicas c)
     + (memory_request c
          - index (getCurrentAllocation h ns (pod_name c) (container_name c)) ''memory_request'')
        * 0.00000001 * real_of_int (replicas c)"

section \<open>The circuit breaker (\<^verbatim>\<open>pkg/resilience/circuit_breaker.go\<close>)\<close>

text \<open>
  The breaker without its lock: one call of \<^verbatim>\<open>Execute\<close> at a time. Counters are
  unbounded integers, a time is a number of nanoseconds and a duration too. An
  \<^verbatim>\<open>error\<close> is its message, \<open>None\<close> is \<^verbatim>\<open>nil\<close>.
\<close>

definition StateClosed :: int where "StateClosed = 0"
definition StateOpen :: int where "StateOpen = 1"
definition StateHalfOpen :: int where "StateHalfOpen = 2"

record CircuitBreaker =
  state :: int
  failures :: int
  threshold :: int
  timeout :: int
  lastFailure :: int
  successes :: int
  successThreshold :: int

definition NewCircuitBreaker :: "int \<Rightarrow> int \<Rightarrow> CircuitBreaker" where
  "NewCircuitBreaker threshold' timeout' =
     \<lparr> state = StateClosed,
       failures = 0,
       threshold = threshold',
       timeout = timeout',
       lastFailure = 0,
       successes = 0,
       successThreshold = 3 \<rparr>"

text \<open>
  \<^verbatim>\<open>canExecute\<close> reads the clock once, in \<^verbatim>\<open>time.Since(cb.lastFailure)\<close>; \<open>now\<close> is
  what it reads. The function returns its answer and the breaker as it leaves it.
\<close>

definition canExecute :: "CircuitBreaker \<Rightarrow> int \<Rightarrow> bool \<times> CircuitBreaker" where
  "canExecute cb now =
     (if state cb = StateClosed then (True, cb)
      else if state cb = StateOpen then
        (if now - lastFailure cb > timeout cb
         then (True, cb\<lparr>state := StateHalfOpen\<rparr>)
         else (False, cb))
      else if state cb = StateHalfOpen then (True, cb)
      else (False, cb))"

text \<open>\<^verbatim>\<open>recordResult\<close>; \<open>now\<close> is what \<^verbatim>\<open>time.Now()\<close> returns.\<close>

definition recordResult :: "CircuitBreaker \<Rightarrow> string option \<Rightarrow> int \<Rightarrow> CircuitBreaker" where
  "recordResult cb err now =
     (if err \<noteq> None then
        (let cb = cb\<lparr>failures := failures cb + 1\<rparr>;
             cb = cb\<lparr>lastFailure := now\<rparr>;
             cb = cb\<lparr>successes := 0\<rparr>
         in if state cb = StateClosed \<and> failures cb \<ge> threshold cb then cb\<lparr>state := StateOpen\<rparr>
            else if state cb = StateHalfOpen then cb\<lparr>state := StateOpen\<rparr>
            else cb)
      else
        (let cb = cb\<lparr>failures := 0\<rparr>;
             cb = cb\<lparr>successes := successes cb + 1\<rparr>
         in if state cb = StateHalfOpen \<and> successes cb \<ge> successThreshold cb
            then cb\<lparr>state := StateClosed\<rparr>
            else cb))"

text \<open>
  \<^verbatim>\<open>Execute\<close>. The wrapped function acts on a state of its own, of any type: it
  takes that state and returns its error and the new state, so a call that does not run
  it leaves the state as it was. \<open>t1\<close> is the clock of \<^verbatim>\<open>canExecute\<close>, \<open>t2\<close> the clock
  of \<^verbatim>\<open>recordResult\<close>.
\<close>

definition Execute ::
  "CircuitBreaker \<Rightarrow> int \<Rightarrow> int \<Rightarrow> ('s \<Rightarrow> string option \<times> 's) \<Rightarrow> 's
     \<Rightarrow> string option \<times> CircuitBreaker \<times> 's" where
  "Execute cb t1 t2 fn s =
     (case canExecute cb t1 of
        (False, cb) \<Rightarrow> (Some ''circuit breaker is open'', cb, s)
      | (True, cb) \<Rightarrow>
          (let (err, s) = fn s;
               cb = recordResult cb err t2
           in (err, cb, s)))"

text \<open>
  A sequence of calls of \<^verbatim>\<open>Execute\<close> on one breaker. A call is the two clock values
  and the error its wrapped function returns when it runs; the function appends that
  error to a log, latest first, so the log holds the outcomes of the calls that ran.
\<close>

fun run ::
  "CircuitBreaker \<Rightarrow> string option list \<Rightarrow> (int \<times> int \<times> string option) list
     \<Rightarrow> CircuitBreaker \<times> string option list" where
  "run cb hist [] = (cb, hist)"
| "run cb hist ((t1, t2, e) # calls) =
     (case Execute cb t1 t2 (\<lambda>l. (e, e # l)) hist of
        (r, cb', hist') \<Rightarrow> run cb' hist' calls)"

text \<open>The failures, and the successes, at the head of the log: the consecutive latest ones.\<close>

definition consecutiveFailures :: "string option list \<Rightarrow> int" where
  "consecutiveFailures hist = int (length (takeWhile (\<lambda>e. e \<noteq> None) hist))"

definition consecutiveSuccesses :: "string option list \<Rightarrow> int" where
  "consecutiveSuccesses hist = int (length (takeWhile (\<lambda>e. e = None) hist))"

text \<open>
  An example for the simulation: a namespace that costs 1 an hour, a container that
  requests 1000 millicores now, and the proposal to request 500 for its one replica,
  projected over a day.
\<close>

definition sim_handler :: Handler where
  "sim_handler =
     \<lparr> db_namespace_costs = (\<lambda>ns. Some 1),
       db_resource_requests = (\<lambda>ns p c. Some (1000, 2000, 0, 0)) \<rparr>"

definition sim_request :: SimulateRequest where
  "sim_request =
     \<lparr> namespace = ''default'',
       changes = [\<lparr> pod_name = ''web'', container_name = ''app'', cpu_request = 500,
                    cpu_limit = 2000, memory_request = 0, memory_limit = 0, replicas = 1 \<rparr>],
       period = ''daily'' \<rparr>"

text \<open>
  What holds of a breaker made by \<^verbatim>\<open>NewCircuitBreaker\<close> after any sequence of calls,
  with the log of the calls that ran: the configuration is as given, the two counters
  count the consecutive latest failures and successes, the state is one of the three,
  and an open breaker has no success counted.
\<close>

definition cb_inv :: "int \<Rightarrow> int \<Rightarrow> CircuitBreaker \<Rightarrow> string option list \<Rightarrow> bool" where
  "cb_inv th to cb hist =
     (threshold cb = th \<and> timeout cb = to \<and> successThreshold cb = 3 \<and>
      failures cb = consecutiveFailures hist \<and>
      successes cb = consecutiveSuccesses hist \<and>
      (state cb = StateClosed \<or> state cb = StateOpen \<or> state cb = StateHalfOpen) \<and>
      (state cb = StateOpen \<longrightarrow> successes cb = 0))"

section \<open>Properties of the analyzer\<close>

subsection \<open>What the two functions return\<close>

lemma cvOf_eq: "cvOf stddev avg = Fin (if avg = 0 then 0 else stddev / avg)"
  by (simp add: cvOf_def fdiv_def)

lemma wasteOf_eq: "cr \<noteq> 0 \<Longrightarrow> wasteOf cr p95 = Fin ((cr - p95) / cr)"
  by (simp add: wasteOf_def fdiv_def)

lemma calculateConfidence_bounds:
  "0.1 \<le> calculateConfidence n cv \<and> calculateConfidence n cv \<le> 0.95"
  by (simp add: calculateConfidence_def Let_def)

lemma cpu_None_iff:
  "(calculateCPURecommendation ra cr cl p50 p95 p99 mx avg sd n = None) =
   (flt (wasteOf cr p95) (wasteThreshold ra) \<and> calculateConfidence n (fin_val (cvOf sd avg)) > 0.7)"
  by (simp add: calculateCPURecommendation_def Let_def split: prod.splits)

lemma mem_None_iff:
  "(calculateMemoryRecommendation ra cr cl p50 p95 p99 mx avg sd n = None) =
   (flt (wasteOf cr p95) (wasteThreshold ra) \<and> calculateConfidence n (fin_val (cvOf sd avg)) > 0.7)"
  by (simp add: calculateMemoryRecommendation_def Let_def split: prod.splits)

lemma cpu_Some:
  assumes "calculateCPURecommendation ra cr cl p50 p95 p99 mx avg sd n = Some r"
  shows "RecommendedRequest r = max (p95 * 1.15) 10"
    and "RecommendedLimit r =
           max (fst (cpuTier (fin_val (cvOf sd avg)) p99 mx)) (RecommendedRequest r * 1.5)"
    and "Confidence r = calculateConfidence n (fin_val (cvOf sd avg))"
    and "PotentialSavings r = (cr * 0.00001 - p95 * 1.15 * 0.00001) * 24 * 30"
    and "Reasoning r =
           fst (snd (cpuTier (fin_val (cvOf sd avg)) p99 mx))
           @ (if p95 * 1.15 < 10 then '' (adjusted to minimum 10m CPU)'' else [])
           @ (if fst (cpuTier (fin_val (cvOf sd avg)) p99 mx) < RecommendedRequest r * 1.5
              then '' (adjusted limit to 1.5x request)'' else [])"
    and "RiskLevel r = snd (snd (cpuTier (fin_val (cvOf sd avg)) p99 mx))"
    and "CurrentRequest r = cr" and "MaxUsage r = mx" and "ResourceType r = ''CPU''"
  using assms
  by (auto simp add: calculateCPURecommendation_def Let_def split: prod.splits if_splits)

lemma mem_Some:
  assumes "calculateMemoryRecommendation ra cr cl p50 p95 p99 mx avg sd n = Some r"
  shows "RecommendedRequest r = max (of_int \<lceil>p95 * 1.1 / 1048576\<rceil> * 1048576) (64 * 1024 * 1024)"
    and "RecommendedLimit r =
           max (of_int \<lceil>mx * 1.2 / 1048576\<rceil> * 1048576) (RecommendedRequest r * 1.5)"
    and "Confidence r = calculateConfidence n (fin_val (cvOf sd avg))"
    and "PotentialSavings r =
           (cr * 0.00000001 - of_int \<lceil>p95 * 1.1 / 1048576\<rceil> * 1048576 * 0.00000001) * 24 * 30"
    and "CurrentRequest r = cr" and "MaxUsage r = mx" and "ResourceType r = ''Memory''"
  using assms
  by (auto simp add: calculateMemoryRecommendation_def Let_def split: prod.splits if_splits)

text \<open>A memory workload whose request rounds to 65 MiB and whose limit is then raised.\<close>

lemma mib_example:
  "calculateMemoryRecommendation NewRightsizingAnalyzer 200000000 0 60000000 61500000 62000000
     62000000 60000000 1000000 1000 =
   Some \<lparr> Namespace = '''', PodName = '''', ContainerName = '''', ResourceType = ''Memory'',
          CurrentRequest = 200000000, CurrentLimit = 0,
          RecommendedRequest = 68157440, RecommendedLimit = 102236160,
          P50Usage = 60000000, P95Usage = 61500000, P99Usage = 62000000, MaxUsage = 62000000,
          PotentialSavings = 949.266432, Confidence = 0.95,
          Reasoning = ''Memory recommendation with OOM prevention buffer'',
          RiskLevel = ''LOW'', LastUpdated = 0 \<rparr>"
  by (simp add: calculateMemoryRecommendation_def Let_def cvOf_eq wasteOf_eq
      calculateConfidence_def NewRightsizingAnalyzer_def)

subsection \<open>The waste gate\<close>

text \<open>
  C1. For the CPU and for the memory recommendation alike, nothing is emitted exactly
  when the waste is below the analyzer's waste threshold and the confidence is above
  0.7, both at once. The waste is the quotient the code computes; when the current
  request is not zero it is the number \<open>(currentRequest - p95) / currentRequest\<close>.
  In particular, with a current request of 1000, a 95th percentile of 800 (a waste of
  0.20, below the default threshold 0.30) and a confidence of 0.5, both recommendations
  are emitted.
\<close>

theorem waste_gate_conjunctive:
  "((calculateCPURecommendation ra currentRequest currentLimit p50 p95 p99 mx avg stddev dataPoints
       = None) =
    (flt (wasteOf currentRequest p95) (wasteThreshold ra) \<and>
     calculateConfidence dataPoints (if avg = 0 then 0 else stddev / avg) > 0.7)) \<and>
   ((calculateMemoryRecommendation ra currentRequest currentLimit p50 p95 p99 mx avg stddev dataPoints
       = None) =
    (flt (wasteOf currentRequest p95) (wasteThreshold ra) \<and>
     calculateConfidence dataPoints (if avg = 0 then 0 else stddev / avg) > 0.7)) \<and>
   (currentRequest \<noteq> 0 \<longrightarrow>
      flt (wasteOf currentRequest p95) (wasteThreshold ra) =
        ((currentRequest - p95) / currentRequest < wasteThreshold ra)) \<and>
   (currentRequest = 1000 \<and> p95 = 800 \<and>
    calculateConfidence dataPoints (if avg = 0 then 0 else stddev / avg) = 0.5 \<longrightarrow>
      (currentRequest - p95) / currentRequest = 0.20 \<and>
      wasteThreshold NewRightsizingAnalyzer = 0.30 \<and>
      calculateCPURecommendation NewRightsizingAnalyzer currentRequest currentLimit
        p50 p95 p99 mx avg stddev dataPoints \<noteq> None \<and>
      calculateMemoryRecommendation NewRightsizingAnalyzer currentRequest currentLimit
        p50 p95 p99 mx avg stddev dataPoints \<noteq> None)"
proof -
  have "currentRequest \<noteq> 0 \<longrightarrow>
      flt (wasteOf currentRequest p95) (wasteThreshold ra) =
        ((currentRequest - p95) / currentRequest < wasteThreshold ra)"
    by (simp add: wasteOf_eq)
  moreover have "wasteThreshold NewRightsizingAnalyzer = 0.30"
    by (simp add: NewRightsizingAnalyzer_def)
  ultimately show ?thesis
    by (simp add: cpu_None_iff mem_None_iff cvOf_eq)
qed

theorem waste_gate_conjunctive_witness:
  "(1000::real) \<noteq> 0 \<and> (1000 - 800) / 1000 < wasteThreshold NewRightsizingAnalyzer \<and>
   calculateConfidence 500 0 = 0.5 \<and>
   calculateCPURecommendation NewRightsizingAnalyzer 1000 2000 700 800 850 900 100 0 500 \<noteq> None \<and>
   calculateMemoryRecommendation NewRightsizingAnalyzer 1000 2000 700 800 850 900 100 0 500 \<noteq> None"
proof -
  have c: "calculateConfidence 500 0 = 0.5"
    by (simp add: calculateConfidence_def Let_def)
  have w: "(1000 - 800) / 1000 < wasteThreshold NewRightsizingAnalyzer"
    by (simp add: NewRightsizingAnalyzer_def)
  from waste_gate_conjunctive [of NewRightsizingAnalyzer 1000 2000 700 800 850 900 100 0 500] c w
  show ?thesis by simp
qed

subsection \<open>The worked example\<close>

text \<open>
  C2. CPU statistics p50 = 100, p95 = 180, p99 = 220, max = 250, mean = 120 and
  stddev = 30 over 500 samples, against a current request of 400: the coefficient of
  variation is 0.25, the low tier, whose limit would be 220 * 1.2 = 264; the waste is
  0.55, above the threshold, so a recommendation is emitted. It carries the request
  207, the limit 310.5 (one and a half times the request, which is more than 264), the
  reasoning of the low tier with the note of the raised limit, the confidence 0.4375
  and the risk level LOW.
\<close>

theorem cpu_worked_example:
  "calculateCPURecommendation NewRightsizingAnalyzer 400 currentLimit 100 180 220 250 120 30 500 =
     Some \<lparr> Namespace = '''', PodName = '''', ContainerName = '''', ResourceType = ''CPU'',
            CurrentRequest = 400, CurrentLimit = currentLimit,
            RecommendedRequest = 207, RecommendedLimit = 310.5,
            P50Usage = 100, P95Usage = 180, P99Usage = 220, MaxUsage = 250,
            PotentialSavings = 1.3896, Confidence = 0.4375,
            Reasoning = ''Low variability workload, using P99 + 20% for limit''
                        @ '' (adjusted limit to 1.5x request)'',
            RiskLevel = ''LOW'', LastUpdated = 0 \<rparr> \<and>
   cvOf 30 120 = Fin 0.25 \<and>
   fst (cpuTier 0.25 220 250) = 264 \<and>
   wasteOf 400 180 = Fin 0.55 \<and> 0.55 > wasteThreshold NewRightsizingAnalyzer \<and>
   calculateConfidence 500 0.25 = 0.4375"
  by (simp add: calculateCPURecommendation_def Let_def cvOf_eq wasteOf_eq cpuTier_def
      calculateConfidence_def NewRightsizingAnalyzer_def)

subsection \<open>Confidence\<close>

lemma if_max: "(if x < a then a else x) = max x (a::real)"
  by (simp add: max_def)

lemma if_min_max:
  "lo \<le> hi \<Longrightarrow> (if hi < max x lo then hi else max x lo) = max lo (min hi (x::real))"
  by (simp add: max_def min_def)

lemma calculateConfidence_spec: "calculateConfidence n cv = confidence_spec n cv"
  unfolding calculateConfidence_def Let_def confidence_spec_def clamp_spec_def
  apply (simp only: if_max)
  apply (subst if_min_max)
   apply simp
  apply simp
  done

text \<open>
  C3. For every sample count and every coefficient of variation, the confidence the
  code computes is the spec's
  \<open>clamp (min (n / 1000) 1 * max (1 - cv * 0.5) 0.3) 0.1 0.95\<close>; it lies between 0.1
  and 0.95, and so does the confidence of every recommendation that is emitted, for CPU
  and for memory.
\<close>

theorem confidence_clamped:
  "calculateConfidence n cv = confidence_spec n cv \<and>
   0.1 \<le> calculateConfidence n cv \<and> calculateConfidence n cv \<le> 0.95 \<and>
   (calculateCPURecommendation ra cr cl p50 p95 p99 mx avg sd n = Some r \<longrightarrow>
      0.1 \<le> Confidence r \<and> Confidence r \<le> 0.95) \<and>
   (calculateMemoryRecommendation ra cr cl p50 p95 p99 mx avg sd n = Some r \<longrightarrow>
      0.1 \<le> Confidence r \<and> Confidence r \<le> 0.95)"
  using calculateConfidence_spec [of n cv] calculateConfidence_bounds [of n cv]
    calculateConfidence_bounds [of n "fin_val (cvOf sd avg)"]
  by (auto simp add: cpu_Some(3) mem_Some(3))

theorem confidence_clamped_witness:
  "calculateCPURecommendation NewRightsizingAnalyzer 1000 2000 700 800 850 900 100 0 500 \<noteq> None \<and>
   0.1 \<le> Confidence (the (calculateCPURecommendation NewRightsizingAnalyzer
     1000 2000 700 800 850 900 100 0 500)) \<and>
   Confidence (the (calculateCPURecommendation NewRightsizingAnalyzer
     1000 2000 700 800 850 900 100 0 500)) \<le> 0.95 \<and>
   calculateMemoryRecommendation NewRightsizingAnalyzer 200000000 0 60000000 61500000 62000000
     62000000 60000000 1000000 1000 \<noteq> None \<and>
   0.1 \<le> Confidence (the (calculateMemoryRecommendation NewRightsizingAnalyzer 200000000 0 60000000
     61500000 62000000 62000000 60000000 1000000 1000)) \<and>
   Confidence (the (calculateMemoryRecommendation NewRightsizingAnalyzer 200000000 0 60000000
     61500000 62000000 62000000 60000000 1000000 1000)) \<le> 0.95"
proof -
  let ?c = "calculateCPURecommendation NewRightsizingAnalyzer 1000 2000 700 800 850 900 100 0 500"
  let ?m = "calculateMemoryRecommendation NewRightsizingAnalyzer 200000000 0 60000000 61500000
     62000000 62000000 60000000 1000000 1000"
  have c: "?c \<noteq> None"
    by (simp add: cpu_None_iff cvOf_eq calculateConfidence_def Let_def)
  have m: "?m \<noteq> None"
    by (simp add: mib_example)
  from c obtain r where r: "?c = Some r" by blast
  from m obtain q where q: "?m = Some q" by blast
  have "0.1 \<le> Confidence r \<and> Confidence r \<le> 0.95"
    using confidence_clamped [of 500 0 NewRightsizingAnalyzer 1000 2000 700 800 850 900 100 0 r] r
    by simp
  moreover have "0.1 \<le> Confidence q \<and> Confidence q \<le> 0.95"
    using confidence_clamped [of 1000 0 NewRightsizingAnalyzer 200000000 0 60000000 61500000
      62000000 62000000 60000000 1000000 q] q by simp
  ultimately show ?thesis using c m r q by simp
qed

subsection \<open>The floors of the CPU recommendation\<close>

text \<open>
  C4. Every CPU recommendation that is emitted has a recommended request of at least
  10 and a recommended limit of at least one and a half times that request. The request
  is 10 exactly when p95 * 1.15 is below 10, the limit is one and a half times the
  request exactly when the limit of the tier is below that, and the reasoning is the
  tier's sentence followed by one note for each of the two floors that raised a value.
\<close>

theorem cpu_floors:
  assumes "calculateCPURecommendation ra currentRequest currentLimit p50 p95 p99 mx avg stddev dataPoints
             = Some r"
  shows "10 \<le> RecommendedRequest r \<and>
         1.5 * RecommendedRequest r \<le> RecommendedLimit r \<and>
         (p95 * 1.15 < 10 \<longrightarrow> RecommendedRequest r = 10) \<and>
         (\<not> p95 * 1.15 < 10 \<longrightarrow> RecommendedRequest r = p95 * 1.15) \<and>
         (fst (cpuTier (fin_val (cvOf stddev avg)) p99 mx) < RecommendedRequest r * 1.5 \<longrightarrow>
            RecommendedLimit r = RecommendedRequest r * 1.5) \<and>
         (\<not> fst (cpuTier (fin_val (cvOf stddev avg)) p99 mx) < RecommendedRequest r * 1.5 \<longrightarrow>
            RecommendedLimit r = fst (cpuTier (fin_val (cvOf stddev avg)) p99 mx)) \<and>
         Reasoning r =
           fst (snd (cpuTier (fin_val (cvOf stddev avg)) p99 mx))
           @ (if p95 * 1.15 < 10 then '' (adjusted to minimum 10m CPU)'' else [])
           @ (if fst (cpuTier (fin_val (cvOf stddev avg)) p99 mx) < RecommendedRequest r * 1.5
              then '' (adjusted limit to 1.5x request)'' else [])"
  using cpu_Some(1,2,5) [OF assms] by (simp add: max_def)

theorem cpu_floors_witness:
  "calculateCPURecommendation NewRightsizingAnalyzer 8 16 3 5 6 7 4 1 1000 \<noteq> None \<and>
   RecommendedRequest (the (calculateCPURecommendation NewRightsizingAnalyzer 8 16 3 5 6 7 4 1 1000)) = 10 \<and>
   RecommendedLimit (the (calculateCPURecommendation NewRightsizingAnalyzer 8 16 3 5 6 7 4 1 1000)) = 15 \<and>
   Reasoning (the (calculateCPURecommendation NewRightsizingAnalyzer 8 16 3 5 6 7 4 1 1000)) =
     ''Low variability workload, using P99 + 20% for limit (adjusted to minimum 10m CPU) (adjusted limit to 1.5x request)''"
proof -
  let ?c = "calculateCPURecommendation NewRightsizingAnalyzer 8 16 3 5 6 7 4 1 1000"
  have c: "?c \<noteq> None"
    by (simp add: cpu_None_iff wasteOf_eq NewRightsizingAnalyzer_def)
  then obtain r where r: "?c = Some r" by blast
  have t: "cpuTier (fin_val (cvOf 1 4)) 6 7 =
             (7.2, ''Low variability workload, using P99 + 20% for limit'', ''LOW'')"
    by (simp add: cvOf_eq cpuTier_def)
  from cpu_floors [OF r] have 1: "RecommendedRequest r = 10" by simp
  from cpu_floors [OF r] 1 t have 2: "RecommendedLimit r = 15" by simp
  from cpu_floors [OF r] 1 t have 3: "Reasoning r =
     ''Low variability workload, using P99 + 20% for limit (adjusted to minimum 10m CPU) (adjusted limit to 1.5x request)''"
    by simp
  from c r 1 2 3 show ?thesis by simp
qed

subsection \<open>The memory limit\<close>

lemma ceil_mib_ge: "x \<le> of_int \<lceil>x / 1048576\<rceil> * (1048576::real)"
proof -
  have "x / 1048576 * 1048576 \<le> of_int \<lceil>x / 1048576\<rceil> * (1048576::real)"
    by (rule mult_right_mono) simp_all
  then show ?thesis by simp
qed

text \<open>
  C5. Every memory recommendation that is emitted has a recommended limit of at least
  1.20 times the highest usage observed: the limit starts there, rounding up to whole
  MiB does not lower it, and neither does raising it to one and a half times the
  request.
\<close>

theorem memory_limit_oom_buffer:
  assumes "calculateMemoryRecommendation ra currentRequest currentLimit p50 p95 p99 mx avg stddev
             dataPoints = Some r"
  shows "mx * 1.20 \<le> RecommendedLimit r \<and> MaxUsage r * 1.20 \<le> RecommendedLimit r \<and>
         of_int \<lceil>mx * 1.2 / 1048576\<rceil> * 1048576 \<le> RecommendedLimit r \<and>
         1.5 * RecommendedRequest r \<le> RecommendedLimit r"
  using mem_Some(2,6) [OF assms] ceil_mib_ge [of "mx * 1.2"] by (simp add: max_def split: if_splits)

theorem memory_limit_oom_buffer_witness:
  "calculateMemoryRecommendation NewRightsizingAnalyzer 200000000 0 60000000 61500000 62000000
     62000000 60000000 1000000 1000 \<noteq> None \<and>
   62000000 * 1.20 \<le> RecommendedLimit (the (calculateMemoryRecommendation NewRightsizingAnalyzer
     200000000 0 60000000 61500000 62000000 62000000 60000000 1000000 1000))"
proof -
  let ?m = "calculateMemoryRecommendation NewRightsizingAnalyzer 200000000 0 60000000 61500000
     62000000 62000000 60000000 1000000 1000"
  have m: "?m \<noteq> None"
    by (simp add: mem_None_iff wasteOf_eq NewRightsizingAnalyzer_def)
  then obtain q where q: "?m = Some q" by blast
  from memory_limit_oom_buffer [OF q] m q show ?thesis by simp
qed

subsection \<open>Whole MiB\<close>

lemma mib_multiple_iff: "mib_multiple x = (\<exists>k::int. x = of_int k * 1048576)"
  unfolding mib_multiple_def
proof
  assume "x = of_int \<lfloor>x / 1048576\<rfloor> * 1048576"
  then show "\<exists>k::int. x = of_int k * 1048576" by blast
next
  assume "\<exists>k::int. x = of_int k * 1048576"
  then obtain k :: int where "x = of_int k * 1048576" by blast
  then show "x = of_int \<lfloor>x / 1048576\<rfloor> * 1048576" by simp
qed

lemma mib_multiple_of_int: "mib_multiple (of_int k * 1048576)"
  by (simp add: mib_multiple_def)

text \<open>
  C6, as the spec has it, fails. With a 95th percentile of 61500000 bytes and a highest
  usage of 62000000 bytes the request rounds up to 65 MiB and the limit to 71 MiB; the
  limit is then raised to one and a half times the request, 97.5 MiB, which is not a
  whole number of MiB.
\<close>

theorem memory_limit_not_whole_mib:
  "calculateMemoryRecommendation NewRightsizingAnalyzer 200000000 0 60000000 61500000 62000000
     62000000 60000000 1000000 1000 \<noteq> None \<and>
   RecommendedLimit (the (calculateMemoryRecommendation NewRightsizingAnalyzer 200000000 0 60000000
     61500000 62000000 62000000 60000000 1000000 1000)) = 97.5 * 1048576 \<and>
   \<not> mib_multiple (RecommendedLimit (the (calculateMemoryRecommendation NewRightsizingAnalyzer
     200000000 0 60000000 61500000 62000000 62000000 60000000 1000000 1000)))"
  by (simp add: mib_example mib_multiple_def)

text \<open>
  C6, amended. Every memory recommendation that is emitted has a recommended request
  that is a whole number of MiB, also when the minimum of 64 MiB applies. Its
  recommended limit is the highest usage times 1.2 rounded up to whole MiB, unless that
  is below one and a half times the request: then the limit is one and a half times the
  request, a whole number of half MiB.
\<close>

theorem memory_mib_granularity:
  assumes "calculateMemoryRecommendation ra currentRequest currentLimit p50 p95 p99 mx avg stddev
             dataPoints = Some r"
  shows "mib_multiple (RecommendedRequest r) \<and>
         (of_int \<lceil>mx * 1.2 / 1048576\<rceil> * 1048576 < RecommendedRequest r * 1.5 \<longrightarrow>
            RecommendedLimit r = RecommendedRequest r * 1.5 \<and> mib_multiple (2 * RecommendedLimit r)) \<and>
         (\<not> of_int \<lceil>mx * 1.2 / 1048576\<rceil> * 1048576 < RecommendedRequest r * 1.5 \<longrightarrow>
            RecommendedLimit r = of_int \<lceil>mx * 1.2 / 1048576\<rceil> * 1048576 \<and>
            mib_multiple (RecommendedLimit r))"
proof -
  have 64: "(64 * 1024 * 1024 :: real) = of_int 64 * 1048576" by simp
  have req: "mib_multiple (RecommendedRequest r)"
    unfolding mem_Some(1) [OF assms] max_def 64
    by (simp only: mib_multiple_of_int if_split) simp
  then obtain k :: int where k: "RecommendedRequest r = of_int k * 1048576"
    unfolding mib_multiple_iff by blast
  have "2 * (RecommendedRequest r * 1.5) = of_int (3 * k) * 1048576"
    by (simp add: k)
  then have three: "mib_multiple (2 * (RecommendedRequest r * 1.5))"
    by (simp only: mib_multiple_of_int)
  have lim: "RecommendedLimit r =
      max (of_int \<lceil>mx * 1.2 / 1048576\<rceil> * 1048576) (RecommendedRequest r * 1.5)"
    by (rule mem_Some(2) [OF assms])
  show ?thesis
  proof (cases "of_int \<lceil>mx * 1.2 / 1048576\<rceil> * 1048576 < RecommendedRequest r * 1.5")
    case True
    with lim have e: "RecommendedLimit r = RecommendedRequest r * 1.5" by linarith
    from three have "mib_multiple (2 * RecommendedLimit r)" by (simp only: e)
    with req e True show ?thesis by blast
  next
    case False
    with lim have e: "RecommendedLimit r = of_int \<lceil>mx * 1.2 / 1048576\<rceil> * 1048576"
      by linarith
    have "mib_multiple (RecommendedLimit r)" unfolding e by (rule mib_multiple_of_int)
    with req e False show ?thesis by blast
  qed
qed

theorem memory_mib_granularity_witness:
  "calculateMemoryRecommendation NewRightsizingAnalyzer 200000000 0 60000000 61500000 62000000
     62000000 60000000 1000000 1000 \<noteq> None \<and>
   mib_multiple (RecommendedRequest (the (calculateMemoryRecommendation NewRightsizingAnalyzer
     200000000 0 60000000 61500000 62000000 62000000 60000000 1000000 1000))) \<and>
   mib_multiple (2 * RecommendedLimit (the (calculateMemoryRecommendation NewRightsizingAnalyzer
     200000000 0 60000000 61500000 62000000 62000000 60000000 1000000 1000)))"
proof -
  let ?m = "calculateMemoryRecommendation NewRightsizingAnalyzer 200000000 0 60000000 61500000
     62000000 62000000 60000000 1000000 1000"
  have m: "?m \<noteq> None" by (simp add: mib_example)
  then obtain q where q: "?m = Some q" by blast
  have lt: "of_int \<lceil>62000000 * 1.2 / (1048576::real)\<rceil> * 1048576 < RecommendedRequest q * 1.5"
    using q by (auto simp add: mib_example)
  from memory_mib_granularity [OF q] lt m q show ?thesis by simp
qed

subsection \<open>Potential savings\<close>

text \<open>
  C7 does not hold of the code: the savings are computed from the recommended request
  before the minimum is applied to it. A CPU workload with a current request of 8 and
  a 95th percentile of 5 is recommended the minimum request 10, which costs
  \<open>(10 - 8) * 0.00001 * 720 = 0.0144\<close> more a month, and is reported to save
  \<open>(8 - 5.75) * 0.00001 * 720 = 0.0162\<close>. A memory workload with a current request of
  50 MiB and a 95th percentile of 10 MiB is recommended the minimum of 64 MiB and is
  reported to save what 11 MiB would.
\<close>

theorem savings_before_floor:
  "calculateCPURecommendation NewRightsizingAnalyzer 8 16 3 5 6 7 4 1 1000 =
     Some \<lparr> Namespace = '''', PodName = '''', ContainerName = '''', ResourceType = ''CPU'',
            CurrentRequest = 8, CurrentLimit = 16,
            RecommendedRequest = 10, RecommendedLimit = 15,
            P50Usage = 3, P95Usage = 5, P99Usage = 6, MaxUsage = 7,
            PotentialSavings = 0.0162, Confidence = 0.875,
            Reasoning = ''Low variability workload, using P99 + 20% for limit (adjusted to minimum 10m CPU) (adjusted limit to 1.5x request)'',
            RiskLevel = ''LOW'', LastUpdated = 0 \<rparr> \<and>
   (8 - 10) * 0.00001 * 720 = (- 0.0144 :: real) \<and>
   (8 - 5 * 1.15) * 0.00001 * 720 = (0.0162 :: real) \<and>
   calculateMemoryRecommendation NewRightsizingAnalyzer 52428800 104857600 8388608 10485760
     11000000 12000000 10000000 1000000 1000 =
     Some \<lparr> Namespace = '''', PodName = '''', ContainerName = '''', ResourceType = ''Memory'',
            CurrentRequest = 52428800, CurrentLimit = 104857600,
            RecommendedRequest = 67108864, RecommendedLimit = 100663296,
            P50Usage = 8388608, P95Usage = 10485760, P99Usage = 11000000, MaxUsage = 12000000,
            PotentialSavings = 294.4401408, Confidence = 0.95,
            Reasoning = ''Memory recommendation with OOM prevention buffer'',
            RiskLevel = ''LOW'', LastUpdated = 0 \<rparr> \<and>
   (52428800 - 67108864) * 0.00000001 * 720 = (- 105.6964608 :: real)"
  by (simp add: calculateCPURecommendation_def calculateMemoryRecommendation_def Let_def cvOf_eq
      wasteOf_eq cpuTier_def calculateConfidence_def NewRightsizingAnalyzer_def)

subsection \<open>Divisions by an input\<close>

text \<open>
  C10. When the current request is not zero the waste is a finite number, the quotient
  \<open>(currentRequest - p95) / currentRequest\<close>. The coefficient of variation is a finite
  number whatever the mean is, 0 when the mean is 0: that division is guarded. The
  waste is not guarded: with a current request of zero it is an infinity or a NaN, and
  whether it counts as below the threshold then depends on the sign of p95 alone, not
  on the threshold.
\<close>

theorem division_guards:
  assumes "currentRequest \<noteq> 0"
  shows "wasteOf currentRequest p95 = Fin ((currentRequest - p95) / currentRequest) \<and>
         cvOf stddev avg = Fin (if avg = 0 then 0 else stddev / avg) \<and>
         cvOf stddev 0 = Fin 0 \<and>
         \<not> is_finite (wasteOf 0 p95) \<and>
         flt (wasteOf 0 p95) w = (0 < p95)"
  using assms by (simp add: wasteOf_eq cvOf_eq) (simp add: wasteOf_def fdiv_def)

theorem division_guards_witness:
  "(1000::real) \<noteq> 0 \<and> wasteOf 1000 800 = Fin 0.2 \<and> cvOf 30 0 = Fin 0 \<and> wasteOf 0 800 = NInf"
  using division_guards [of 1000 800 30 0] by (simp add: wasteOf_def fdiv_def)

section \<open>Properties of the simulation\<close>

lemma sumCostDelta_eq:
  "sumCostDelta h ns cs acc = acc + sum_list (map (delta_spec h ns) cs)"
  by (induction cs arbitrary: acc) (simp_all add: delta_spec_def Let_def)

lemma fmul_fdiv: "d \<noteq> 0 \<Longrightarrow> fmul (fdiv x d) c = Fin (x / d * c)"
  by (simp add: fdiv_def)

lemma fmul_fdiv_zero: "\<not> is_finite (fmul (fdiv x 0) 100)"
  by (simp add: fdiv_def)

lemma periodMultiplier_pos: "0 < periodMultiplier p"
  by (simp add: periodMultiplier_def)

lemma SimulateCosts_None_iff:
  "(SimulateCosts h req = None) = (getCurrentCosts h (namespace req) = 0)"
  using periodMultiplier_pos [of "period req"]
  by (cases "getCurrentCosts h (namespace req) = 0")
     (simp_all add: SimulateCosts_def jsonEncode_def Let_def fmul_fdiv fmul_fdiv_zero)

lemma SimulateCosts_Some:
  assumes "SimulateCosts h req = Some r"
  shows "projected_cost r =
           (getCurrentCosts h (namespace req)
              + sum_list (map (delta_spec h (namespace req)) (changes req)))
           * periodMultiplier (period req)"
    and "savings r = getCurrentCosts h (namespace req) * periodMultiplier (period req)
           - projected_cost r"
    and "savings_percent r =
           Fin (savings r / (getCurrentCosts h (namespace req) * periodMultiplier (period req))
                * 100)"
    and "current_cost r = getCurrentCosts h (namespace req) * periodMultiplier (period req)"
    and "breakdown r ''compute'' = Some (projected_cost r * 0.60)"
    and "breakdown r ''storage'' = Some (projected_cost r * 0.20)"
    and "breakdown r ''network'' = Some (projected_cost r * 0.15)"
    and "breakdown r ''other'' = Some (projected_cost r * 0.05)"
proof -
  from assms have b: "getCurrentCosts h (namespace req) \<noteq> 0"
    using SimulateCosts_None_iff [of h req] by auto
  with periodMultiplier_pos [of "period req"]
  have d: "getCurrentCosts h (namespace req) * periodMultiplier (period req) \<noteq> 0"
    by simp
  have f: "fmul (fdiv x (getCurrentCosts h (namespace req) * periodMultiplier (period req))) 100
         = Fin (x / (getCurrentCosts h (namespace req) * periodMultiplier (period req)) * 100)"
    for x
    using d by (rule fmul_fdiv)
  from assms show "projected_cost r =
           (getCurrentCosts h (namespace req)
              + sum_list (map (delta_spec h (namespace req)) (changes req)))
           * periodMultiplier (period req)"
    by (auto simp add: SimulateCosts_def jsonEncode_def Let_def sumCostDelta_eq split: if_splits)
  from assms show "savings r = getCurrentCosts h (namespace req) * periodMultiplier (period req)
           - projected_cost r"
    by (auto simp add: SimulateCosts_def jsonEncode_def Let_def split: if_splits)
  from assms show "savings_percent r =
           Fin (savings r / (getCurrentCosts h (namespace req) * periodMultiplier (period req))
                * 100)"
    unfolding SimulateCosts_def jsonEncode_def Let_def f
    by (auto split: if_splits)
  from assms show "current_cost r = getCurrentCosts h (namespace req) * periodMultiplier (period req)"
    by (auto simp add: SimulateCosts_def jsonEncode_def Let_def split: if_splits)
  from assms show "breakdown r ''compute'' = Some (projected_cost r * 0.60)"
    by (auto simp add: SimulateCosts_def jsonEncode_def Let_def split: if_splits)
  from assms show "breakdown r ''storage'' = Some (projected_cost r * 0.20)"
    by (auto simp add: SimulateCosts_def jsonEncode_def Let_def split: if_splits)
  from assms show "breakdown r ''network'' = Some (projected_cost r * 0.15)"
    by (auto simp add: SimulateCosts_def jsonEncode_def Let_def split: if_splits)
  from assms show "breakdown r ''other'' = Some (projected_cost r * 0.05)"
    by (auto simp add: SimulateCosts_def jsonEncode_def Let_def split: if_splits)
qed

lemma sim_example:
  "SimulateCosts sim_handler sim_request =
     Some \<lparr> current_cost = 24, projected_cost = 23.88, cost_difference = - 0.12,
            savings = 0.12, savings_percent = Fin 0.5,
            breakdown = [''compute'' \<mapsto> 14.328, ''storage'' \<mapsto> 4.776,
                         ''network'' \<mapsto> 3.582, ''other'' \<mapsto> 1.194] \<rparr>"
  by (simp add: SimulateCosts_def jsonEncode_def Let_def getCurrentCosts_def
      getCurrentAllocation_def index_def periodMultiplier_def fdiv_def sim_handler_def
      sim_request_def)

text \<open>
  C8, as the spec has it, fails in one place: the response's \<^verbatim>\<open>savings_percent\<close> is
  not the quotient of the savings by the current cost of the period but a hundred times
  that. In the example the namespace costs 1 an hour, so the response is written; the
  savings of the day are 0.12 of a current cost of 24, a quotient of 0.005, and the
  response says 0.5.
\<close>

theorem simulate_costs_fraction_counterexample:
  "SimulateCosts sim_handler sim_request \<noteq> None \<and>
   getCurrentCosts sim_handler (namespace sim_request) = 1 \<and>
   periodMultiplier (period sim_request) = 24 \<and>
   savings (the (SimulateCosts sim_handler sim_request)) = 0.12 \<and>
   savings_percent (the (SimulateCosts sim_handler sim_request)) = Fin 0.5 \<and>
   savings (the (SimulateCosts sim_handler sim_request))
     / (getCurrentCosts sim_handler (namespace sim_request) * periodMultiplier (period sim_request))
     = 0.005 \<and>
   savings_percent (the (SimulateCosts sim_handler sim_request)) \<noteq>
     Fin (savings (the (SimulateCosts sim_handler sim_request))
          / (getCurrentCosts sim_handler (namespace sim_request)
             * periodMultiplier (period sim_request)))"
  by (simp add: sim_example)
     (simp add: getCurrentCosts_def periodMultiplier_def sim_handler_def sim_request_def)

text \<open>
  C8, amended. Let \<open>B\<close> be the hourly cost of the namespace, \<open>D\<close> the sum over the
  changes of (proposed CPU request - current CPU request) * 0.00001 * replicas +
  (proposed memory request - current memory request) * 0.00000001 * replicas, and \<open>m\<close>
  the multiplier of the period: 24 for daily, 720 for monthly, 8760 for yearly. A
  response is written exactly when \<open>B\<close> is not zero (with \<open>B\<close> zero the savings percent
  is a NaN or an infinity, the encoder refuses it and the body stays empty). In every
  response that is written the projected cost is \<open>(B + D) * m\<close>, the savings are
  \<open>B * m\<close> less the projected cost, the savings percent is \<open>savings / (B * m) * 100\<close>,
  and the breakdown gives compute, storage, network and other 0.60, 0.20, 0.15 and 0.05
  of the projected cost.
\<close>

theorem simulate_costs_percent:
  "periodMultiplier ''daily'' = 24 \<and> periodMultiplier ''monthly'' = 720 \<and>
   periodMultiplier ''yearly'' = 8760 \<and>
   (SimulateCosts h req = None) = (getCurrentCosts h (namespace req) = 0) \<and>
   (SimulateCosts h req = Some r \<longrightarrow>
      getCurrentCosts h (namespace req) \<noteq> 0 \<and>
      projected_cost r =
        (getCurrentCosts h (namespace req)
           + sum_list (map (delta_spec h (namespace req)) (changes req)))
        * periodMultiplier (period req) \<and>
      savings r =
        getCurrentCosts h (namespace req) * periodMultiplier (period req) - projected_cost r \<and>
      savings_percent r =
        Fin (savings r / (getCurrentCosts h (namespace req) * periodMultiplier (period req))
             * 100) \<and>
      breakdown r ''compute'' = Some (projected_cost r * 0.60) \<and>
      breakdown r ''storage'' = Some (projected_cost r * 0.20) \<and>
      breakdown r ''network'' = Some (projected_cost r * 0.15) \<and>
      breakdown r ''other'' = Some (projected_cost r * 0.05))"
proof -
  have p: "periodMultiplier ''daily'' = 24 \<and> periodMultiplier ''monthly'' = 720 \<and>
           periodMultiplier ''yearly'' = 8760"
    by (simp add: periodMultiplier_def)
  have n: "(SimulateCosts h req = None) = (getCurrentCosts h (namespace req) = 0)"
    by (rule SimulateCosts_None_iff)
  have s: "SimulateCosts h req = Some r \<longrightarrow>
      getCurrentCosts h (namespace req) \<noteq> 0 \<and>
      projected_cost r =
        (getCurrentCosts h (namespace req)
           + sum_list (map (delta_spec h (namespace req)) (changes req)))
        * periodMultiplier (period req) \<and>
      savings r =
        getCurrentCosts h (namespace req) * periodMultiplier (period req) - projected_cost r \<and>
      savings_percent r =
        Fin (savings r / (getCurrentCosts h (namespace req) * periodMultiplier (period req))
             * 100) \<and>
      breakdown r ''compute'' = Some (projected_cost r * 0.60) \<and>
      breakdown r ''storage'' = Some (projected_cost r * 0.20) \<and>
      breakdown r ''network'' = Some (projected_cost r * 0.15) \<and>
      breakdown r ''other'' = Some (projected_cost r * 0.05)"
  proof
    assume a: "SimulateCosts h req = Some r"
    then have "getCurrentCosts h (namespace req) \<noteq> 0"
      using n by auto
    with SimulateCosts_Some(1,2,3,5,6,7,8) [OF a] show
     "getCurrentCosts h (namespace req) \<noteq> 0 \<and>
      projected_cost r =
        (getCurrentCosts h (namespace req)
           + sum_list (map (delta_spec h (namespace req)) (changes req)))
        * periodMultiplier (period req) \<and>
      savings r =
        getCurrentCosts h (namespace req) * periodMultiplier (period req) - projected_cost r \<and>
      savings_percent r =
        Fin (savings r / (getCurrentCosts h (namespace req) * periodMultiplier (period req))
             * 100) \<and>
      breakdown r ''compute'' = Some (projected_cost r * 0.60) \<and>
      breakdown r ''storage'' = Some (projected_cost r * 0.20) \<and>
      breakdown r ''network'' = Some (projected_cost r * 0.15) \<and>
      breakdown r ''other'' = Some (projected_cost r * 0.05)"
      by blast
  qed
  from p n s show ?thesis by blast
qed

theorem simulate_costs_percent_witness:
  "SimulateCosts sim_handler sim_request \<noteq> None \<and>
   getCurrentCosts sim_handler (namespace sim_request) \<noteq> 0 \<and>
   projected_cost (the (SimulateCosts sim_handler sim_request)) = 23.88 \<and>
   savings (the (SimulateCosts sim_handler sim_request)) = 0.12 \<and>
   savings_percent (the (SimulateCosts sim_handler sim_request)) = Fin 0.5 \<and>
   SimulateCosts (sim_handler\<lparr>db_namespace_costs := (\<lambda>ns. None)\<rparr>) sim_request = None"
proof -
  let ?r = "\<lparr> current_cost = 24, projected_cost = 23.88, cost_difference = - 0.12,
            savings = 0.12, savings_percent = Fin 0.5,
            breakdown = [''compute'' \<mapsto> 14.328, ''storage'' \<mapsto> 4.776,
                         ''network'' \<mapsto> 3.582, ''other'' \<mapsto> 1.194] \<rparr>"
  have e: "SimulateCosts sim_handler sim_request = Some ?r" by (rule sim_example)
  have z: "getCurrentCosts (sim_handler\<lparr>db_namespace_costs := (\<lambda>ns. None)\<rparr>)
             (namespace sim_request) = 0"
    by (simp add: getCurrentCosts_def)
  from simulate_costs_percent [of sim_handler sim_request ?r] e
  have "getCurrentCosts sim_handler (namespace sim_request) \<noteq> 0" by simp
  moreover from simulate_costs_percent
    [of "sim_handler\<lparr>db_namespace_costs := (\<lambda>ns. None)\<rparr>" sim_request ?r] z
  have "SimulateCosts (sim_handler\<lparr>db_namespace_costs := (\<lambda>ns. None)\<rparr>) sim_request = None"
    by simp
  ultimately show ?thesis using e by simp
qed

section \<open>Properties of the circuit breaker\<close>

lemmas cb_defs = Execute_def canExecute_def recordResult_def StateClosed_def StateOpen_def
  StateHalfOpen_def

lemma cb_inv_init: "cb_inv th to (NewCircuitBreaker th to) []"
  by (simp add: cb_inv_def NewCircuitBreaker_def consecutiveFailures_def consecutiveSuccesses_def)

lemma cb_inv_step:
  assumes "cb_inv th to cb hist"
    and "Execute cb t1 t2 (\<lambda>l. (e, e # l)) hist = (r, cb', hist')"
  shows "cb_inv th to cb' hist'"
  using assms
  by (auto simp add: cb_inv_def cb_defs Let_def consecutiveFailures_def consecutiveSuccesses_def
      split: if_splits)

lemma cb_inv_run:
  "cb_inv th to cb hist \<Longrightarrow> run cb hist calls = (cb', hist') \<Longrightarrow> cb_inv th to cb' hist'"
proof (induction calls arbitrary: cb hist)
  case Nil
  then show ?case by simp
next
  case (Cons c calls)
  obtain t1 t2 e where c: "c = (t1, t2, e)" by (cases c)
  obtain r cb1 hist1 where ex: "Execute cb t1 t2 (\<lambda>l. (e, e # l)) hist = (r, cb1, hist1)"
    by (cases "Execute cb t1 t2 (\<lambda>l. (e, e # l)) hist")
  from Cons.prems(1) ex have "cb_inv th to cb1 hist1" by (rule cb_inv_step)
  moreover from Cons.prems(2) c ex have "run cb1 hist1 calls = (cb', hist')" by simp
  ultimately show ?case by (rule Cons.IH)
qed

text \<open>
  C9. Take a breaker made with a failure threshold and a cooldown, after any sequence
  of calls of \<^verbatim>\<open>Execute\<close>. Its counters are the numbers of consecutive latest failures
  and successes of the wrapped function, and its success threshold is 3. Then:
  while it is open and no more than the cooldown has passed since the last failure,
  \<^verbatim>\<open>Execute\<close> returns the error "circuit breaker is open" at once, without running the
  wrapped function and without changing the breaker;
  when it is closed, a failure opens it exactly when the consecutive failures, this one
  included, reach the threshold;
  when it is open and more than the cooldown has passed, \<^verbatim>\<open>canExecute\<close> makes it
  half-open and the wrapped function runs, and a success leaves it half-open;
  when it is half-open, a failure opens it again, and a success closes it exactly when
  it is the third consecutive one.
\<close>

theorem circuit_breaker_state_machine:
  assumes "run (NewCircuitBreaker th to) [] calls = (cb, hist)"
  shows
    "(state cb = StateOpen \<and> t1 - lastFailure cb \<le> to \<longrightarrow>
        Execute cb t1 t2 fn s = (Some ''circuit breaker is open'', cb, s)) \<and>
     (state cb = StateClosed \<and> e \<noteq> None \<longrightarrow>
        run cb hist [(t1, t2, e)] =
          (cb\<lparr>failures := consecutiveFailures (e # hist), lastFailure := t2, successes := 0,
               state := (if th \<le> consecutiveFailures (e # hist) then StateOpen else StateClosed)\<rparr>,
           e # hist)) \<and>
     (state cb = StateOpen \<and> to < t1 - lastFailure cb \<longrightarrow>
        canExecute cb t1 = (True, cb\<lparr>state := StateHalfOpen\<rparr>) \<and>
        Execute cb t1 t2 fn s =
          (fst (fn s), recordResult (cb\<lparr>state := StateHalfOpen\<rparr>) (fst (fn s)) t2, snd (fn s)) \<and>
        state (fst (run cb hist [(t1, t2, None)])) = StateHalfOpen) \<and>
     (state cb = StateHalfOpen \<and> e \<noteq> None \<longrightarrow>
        state (fst (run cb hist [(t1, t2, e)])) = StateOpen \<and>
        lastFailure (fst (run cb hist [(t1, t2, e)])) = t2) \<and>
     (state cb = StateHalfOpen \<longrightarrow>
        state (fst (run cb hist [(t1, t2, None)])) =
          (if 3 \<le> consecutiveSuccesses (None # hist) then StateClosed else StateHalfOpen)) \<and>
     successThreshold cb = 3 \<and> threshold cb = th \<and> timeout cb = to \<and>
     failures cb = consecutiveFailures hist \<and> successes cb = consecutiveSuccesses hist"
proof -
  have inv: "cb_inv th to cb hist"
    using cb_inv_init assms by (rule cb_inv_run)
  have a: "state cb = StateOpen \<and> t1 - lastFailure cb \<le> to \<longrightarrow>
        Execute cb t1 t2 fn s = (Some ''circuit breaker is open'', cb, s)"
    using inv by (simp add: cb_inv_def cb_defs)
  have b: "state cb = StateClosed \<and> e \<noteq> None \<longrightarrow>
        run cb hist [(t1, t2, e)] =
          (cb\<lparr>failures := consecutiveFailures (e # hist), lastFailure := t2, successes := 0,
               state := (if th \<le> consecutiveFailures (e # hist) then StateOpen else StateClosed)\<rparr>,
           e # hist)"
    using inv
    by (auto simp add: cb_inv_def cb_defs Let_def consecutiveFailures_def consecutiveSuccesses_def)
  have c: "state cb = StateOpen \<and> to < t1 - lastFailure cb \<longrightarrow>
        canExecute cb t1 = (True, cb\<lparr>state := StateHalfOpen\<rparr>) \<and>
        Execute cb t1 t2 fn s =
          (fst (fn s), recordResult (cb\<lparr>state := StateHalfOpen\<rparr>) (fst (fn s)) t2, snd (fn s)) \<and>
        state (fst (run cb hist [(t1, t2, None)])) = StateHalfOpen"
    using inv
    by (auto simp add: cb_inv_def cb_defs Let_def split: prod.splits)
  have d: "state cb = StateHalfOpen \<and> e \<noteq> None \<longrightarrow>
        state (fst (run cb hist [(t1, t2, e)])) = StateOpen \<and>
        lastFailure (fst (run cb hist [(t1, t2, e)])) = t2"
    using inv by (auto simp add: cb_inv_def cb_defs Let_def)
  have e: "state cb = StateHalfOpen \<longrightarrow>
        state (fst (run cb hist [(t1, t2, None)])) =
          (if 3 \<le> consecutiveSuccesses (None # hist) then StateClosed else StateHalfOpen)"
    using inv
    by (auto simp add: cb_inv_def cb_defs Let_def consecutiveSuccesses_def)
  from a b c d e inv show ?thesis
    unfolding cb_inv_def by blast
qed

theorem circuit_breaker_state_machine_witness:
  "run (NewCircuitBreaker 2 100) [] [(0, 1, Some ''down''), (2, 3, Some ''down'')] =
     (\<lparr>state = StateOpen, failures = 2, threshold = 2, timeout = 100, lastFailure = 3,
        successes = 0, successThreshold = 3\<rparr>, [Some ''down'', Some ''down'']) \<and>
   Execute \<lparr>state = StateOpen, failures = 2, threshold = 2, timeout = 100, lastFailure = 3,
        successes = 0, successThreshold = 3\<rparr> 50 51 (\<lambda>n::nat. (None, Suc n)) 0 =
     (Some ''circuit breaker is open'',
      \<lparr>state = StateOpen, failures = 2, threshold = 2, timeout = 100, lastFailure = 3,
        successes = 0, successThreshold = 3\<rparr>, 0) \<and>
   canExecute \<lparr>state = StateOpen, failures = 2, threshold = 2, timeout = 100, lastFailure = 3,
        successes = 0, successThreshold = 3\<rparr> 200 =
     (True, \<lparr>state = StateHalfOpen, failures = 2, threshold = 2, timeout = 100, lastFailure = 3,
        successes = 0, successThreshold = 3\<rparr>) \<and>
   state (fst (run (NewCircuitBreaker 2 100) [] [(0, 1, Some ''down'')])) = StateClosed \<and>
   state (fst (run (NewCircuitBreaker 2 100) [] [(0, 1, Some ''down''), (2, 3, Some ''down'')]))
     = StateOpen \<and>
   state (fst (run (NewCircuitBreaker 2 100) []
     [(0, 1, Some ''down''), (2, 3, Some ''down''), (200, 201, None), (202, 203, None)]))
     = StateHalfOpen \<and>
   state (fst (run \<lparr>state = StateHalfOpen, failures = 0, threshold = 2, timeout = 100,
        lastFailure = 3, successes = 2, successThreshold = 3\<rparr>
        [None, None, Some ''down'', Some ''down''] [(204, 205, None)])) = StateClosed \<and>
   state (fst (run \<lparr>state = StateHalfOpen, failures = 0, threshold = 2, timeout = 100,
        lastFailure = 3, successes = 2, successThreshold = 3\<rparr>
        [None, None, Some ''down'', Some ''down''] [(204, 205, Some ''down'')])) = StateOpen"
proof -
  let ?open = "\<lparr>state = StateOpen, failures = 2, threshold = 2, timeout = 100, lastFailure = 3,
        successes = 0, successThreshold = 3\<rparr>"
  let ?closed = "\<lparr>state = StateClosed, failures = 1, threshold = 2, timeout = 100, lastFailure = 1,
        successes = 0, successThreshold = 3\<rparr>"
  let ?half = "\<lparr>state = StateHalfOpen, failures = 0, threshold = 2, timeout = 100,
        lastFailure = 3, successes = 2, successThreshold = 3\<rparr>"
  have rc: "run (NewCircuitBreaker 2 100) [] [(0, 1, Some ''down'')] = (?closed, [Some ''down''])"
    by (simp add: NewCircuitBreaker_def cb_defs Let_def)
  have ro: "run (NewCircuitBreaker 2 100) [] [(0, 1, Some ''down''), (2, 3, Some ''down'')] =
              (?open, [Some ''down'', Some ''down''])"
    by (simp add: NewCircuitBreaker_def cb_defs Let_def)
  have rh: "run (NewCircuitBreaker 2 100) []
              [(0, 1, Some ''down''), (2, 3, Some ''down''), (200, 201, None), (202, 203, None)] =
              (?half, [None, None, Some ''down'', Some ''down''])"
    by (simp add: NewCircuitBreaker_def cb_defs Let_def)
  have blocked: "Execute ?open 50 51 (\<lambda>n::nat. (None, Suc n)) 0 =
      (Some ''circuit breaker is open'', ?open, 0)"
    using circuit_breaker_state_machine [OF ro, of 50 51 "\<lambda>n::nat. (None, Suc n)" 0 None]
    by simp
  have trial: "canExecute ?open 200 = (True, ?open\<lparr>state := StateHalfOpen\<rparr>)"
    using circuit_breaker_state_machine [OF ro, of 200 201 "\<lambda>n::nat. (None, Suc n)" 0 None]
    by simp
  have opens: "state (fst (run ?closed [Some ''down''] [(2, 3, Some ''down'')])) = StateOpen"
    using circuit_breaker_state_machine [OF rc, of 2 3 "\<lambda>n::nat. (None, Suc n)" 0 "Some ''down''"]
    by (simp add: consecutiveFailures_def)
  have closes: "state (fst (run ?half [None, None, Some ''down'', Some ''down'']
                  [(204, 205, None)])) = StateClosed"
    using circuit_breaker_state_machine [OF rh, of 204 205 "\<lambda>n::nat. (None, Suc n)" 0 None]
    by (simp add: consecutiveSuccesses_def)
  have reopens: "state (fst (run ?half [None, None, Some ''down'', Some ''down'']
                  [(204, 205, Some ''down'')])) = StateOpen"
    using circuit_breaker_state_machine [OF rh, of 204 205 "\<lambda>n::nat. (None, Suc n)" 0
        "Some ''down''"]
    by simp
  from rc ro rh blocked trial opens closes reopens show ?thesis by simp
qed

end
